theory Spec2Isabelle
  imports Main "HOL-Library.Word"
begin

section \<open>The node base class of the synthesis server (node_types.hpp)\<close>

text \<open>
  A shallow embedding of \<^verbatim>\<open>nova::server_node\<close>, of the two free functions that
  \<^verbatim>\<open>boost::intrusive_ptr\<close> calls on it, and of \<^verbatim>\<open>server_node_allocator\<close>.

  Conventions of the embedding:
  \<^item> a pointer is a natural number and \<open>0\<close> is the null pointer;
  \<^item> \<^verbatim>\<open>uint32_t\<close> is \<open>32 word\<close> and \<^verbatim>\<open>std::size_t\<close> is \<open>64 word\<close>;
  \<^item> the data members lose their final underscore (\<^verbatim>\<open>parent_\<close> is the field
    \<open>parent\<close>), which an Isabelle name cannot end with;
  \<^item> \<^verbatim>\<open>use_count_\<close> is a \<^verbatim>\<open>boost::detail::atomic_count\<close>, a signed counter whose
    width is fixed by the boost headers and the platform and not by this source; it is
    an \<open>int\<close> here, so that \<^verbatim>\<open>--use_count_\<close> at \<open>0\<close> gives \<open>-1\<close> as it does for
    the signed counter;
  \<^item> \<^verbatim>\<open>assert\<close> is checked (a build without \<^verbatim>\<open>NDEBUG\<close>): a failing assertion ends
    the call with \<open>Inl AssertionFailed\<close>;
  \<^item> \<^verbatim>\<open>throw std::bad_alloc()\<close> is \<open>Inl BadAlloc\<close>;
  \<^item> calling a member function through a pointer to an object that has been deleted is
    undefined in C++; the embedding answers \<open>Inl Dangling\<close>.
\<close>

type_synonym ptr = nat

type_synonym size_t = "64 word"

datatype error = AssertionFailed | BadAlloc | Dangling

record server_node =
  node_id :: "32 word"
  synth :: bool
  running :: bool
  parent :: ptr
  use_count :: int

text \<open>
  Modelled from the spec: \<^verbatim>\<open>server_node::free\<close> and the \<^verbatim>\<open>static_pool\<close> behind it are
  not in the source; all that the store keeps of the arena is \<open>freed\<close>, the list of the
  storage addresses handed back to it, oldest first. The other field, \<open>objs\<close>, holds the
  live \<^verbatim>\<open>server_node\<close> objects by address.
\<close>

record heap =
  objs :: "ptr \<rightharpoonup> server_node"
  freed :: "ptr list"

subsection \<open>Member functions that only read or write fields\<close>

definition server_node_ctor :: "32 word \<Rightarrow> bool \<Rightarrow> server_node" where
  "server_node_ctor nid type =
     \<lparr>node_id = nid, synth = type, running = True, parent = 0, use_count = 0\<rparr>"

definition reset_id :: "32 word \<Rightarrow> server_node \<Rightarrow> server_node" where
  "reset_id new_id n = n\<lparr>node_id := new_id\<rparr>"

definition server_node_id :: "server_node \<Rightarrow> 32 word" where
  "server_node_id n = node_id n"

definition node_less :: "server_node \<Rightarrow> server_node \<Rightarrow> bool" where
  "node_less lhs rhs = (node_id lhs < node_id rhs)"

definition node_equal :: "server_node \<Rightarrow> server_node \<Rightarrow> bool" where
  "node_equal lhs rhs = (node_id lhs = node_id rhs)"

definition is_synth :: "server_node \<Rightarrow> bool" where
  "is_synth n = synth n"

definition pause :: "server_node \<Rightarrow> server_node" where
  "pause n = n\<lparr>running := False\<rparr>"

definition resume :: "server_node \<Rightarrow> server_node" where
  "resume n = n\<lparr>running := True\<rparr>"

definition is_running :: "server_node \<Rightarrow> bool" where
  "is_running n = running n"

definition get_parent :: "server_node \<Rightarrow> ptr" where
  "get_parent n = parent n"

definition add_ref :: "server_node \<Rightarrow> server_node" where
  "add_ref n = n\<lparr>use_count := use_count n + 1\<rparr>"

text \<open>
  \<^verbatim>\<open>set_parent\<close>: the count is incremented first, then the assertion is checked, then
  the pointer is stored.
\<close>

definition set_parent :: "ptr \<Rightarrow> server_node \<Rightarrow> error + server_node" where
  "set_parent p n =
     (let n1 = add_ref n in
      if parent n1 = 0 then Inr (n1\<lparr>parent := p\<rparr>) else Inl AssertionFailed)"

subsection \<open>Member functions that may delete the object\<close>

definition store :: "ptr \<Rightarrow> server_node \<Rightarrow> heap \<Rightarrow> heap" where
  "store this n h = h\<lparr>objs := (objs h)(this \<mapsto> n)\<rparr>"

text \<open>\<^verbatim>\<open>server_node::free(p)\<close>, as far as the embedding sees it: one more entry of the log.\<close>

definition free_storage :: "ptr \<Rightarrow> heap \<Rightarrow> heap" where
  "free_storage p h = h\<lparr>freed := freed h @ [p]\<rparr>"

text \<open>\<^verbatim>\<open>operator delete\<close> of the class.\<close>

definition operator_delete :: "ptr \<Rightarrow> heap \<Rightarrow> heap" where
  "operator_delete p h = free_storage p h"

text \<open>
  \<^verbatim>\<open>delete this\<close>: the destructor runs, with its assertion \<^verbatim>\<open>parent_ == 0\<close>, the object
  ends, and \<^verbatim>\<open>operator delete\<close> gets the storage.
\<close>

definition delete_this :: "ptr \<Rightarrow> heap \<Rightarrow> error + heap" where
  "delete_this this h =
     (case objs h this of
        None \<Rightarrow> Inl Dangling
      | Some n \<Rightarrow>
          if parent n = 0
          then Inr (operator_delete this (h\<lparr>objs := (objs h)(this := None)\<rparr>))
          else Inl AssertionFailed)"

definition release :: "ptr \<Rightarrow> heap \<Rightarrow> error + heap" where
  "release this h =
     (case objs h this of
        None \<Rightarrow> Inl Dangling
      | Some n \<Rightarrow>
          (let n1 = n\<lparr>use_count := use_count n - 1\<rparr>;
               h1 = store this n1 h
           in if use_count n1 = 0 then delete_this this h1 else Inr h1))"

definition clear_parent :: "ptr \<Rightarrow> heap \<Rightarrow> error + heap" where
  "clear_parent this h =
     (case objs h this of
        None \<Rightarrow> Inl Dangling
      | Some n \<Rightarrow> release this (store this (n\<lparr>parent := 0\<rparr>) h))"

subsection \<open>The hooks of \<^verbatim>\<open>boost::intrusive_ptr\<close>\<close>

definition intrusive_ptr_add_ref :: "ptr \<Rightarrow> heap \<Rightarrow> error + heap" where
  "intrusive_ptr_add_ref p h =
     (case objs h p of
        None \<Rightarrow> Inl Dangling
      | Some n \<Rightarrow> Inr (store p (add_ref n) h))"

definition intrusive_ptr_release :: "ptr \<Rightarrow> heap \<Rightarrow> error + heap" where
  "intrusive_ptr_release p h = release p h"

subsection \<open>\<^verbatim>\<open>server_node_allocator\<close>\<close>

text \<open>
  The class has no data member; an instance for the element type \<open>'t\<close> is the one value
  of \<open>'t server_node_allocator\<close>. The element size \<^verbatim>\<open>sizeof(T)\<close> is an argument of the
  functions that use it.

  \<^verbatim>\<open>server_node::allocate(size)\<close> and \<^verbatim>\<open>pool.get_max_size()\<close> are declared in the source
  and defined elsewhere: they are the arguments \<open>node_allocate\<close> (from a request and the
  pool to the pointer returned, \<open>0\<close> for none, and the pool afterwards) and
  \<open>pool_get_max_size\<close>.
\<close>

datatype 't server_node_allocator = Server_Node_Allocator

definition get_max_size :: "('p \<Rightarrow> size_t) \<Rightarrow> 'p \<Rightarrow> size_t" where
  "get_max_size pool_get_max_size pool = pool_get_max_size pool"

definition allocator_allocate ::
  "(size_t \<Rightarrow> 'p \<Rightarrow> ptr \<times> 'p) \<Rightarrow> size_t \<Rightarrow> size_t \<Rightarrow> 'p \<Rightarrow> (error + ptr) \<times> 'p" where
  "allocator_allocate node_allocate sizeof_T n pool =
     (case node_allocate (n * sizeof_T) pool of
        (ret, pool1) \<Rightarrow> (if ret = 0 then Inl BadAlloc else Inr ret, pool1))"

definition allocator_max_size :: "('p \<Rightarrow> size_t) \<Rightarrow> size_t \<Rightarrow> 'p \<Rightarrow> size_t" where
  "allocator_max_size pool_get_max_size sizeof_T pool = get_max_size pool_get_max_size pool"

definition allocator_not_equal ::
  "'t server_node_allocator \<Rightarrow> 'u server_node_allocator \<Rightarrow> bool" where
  "allocator_not_equal left right = True"

definition allocator_equal ::
  "'t server_node_allocator \<Rightarrow> 'u server_node_allocator \<Rightarrow> bool" where
  "allocator_equal left right = (\<not> allocator_not_equal left right)"

subsection \<open>A pool to run the adapter on\<close>

text \<open>
  Modelled from the spec: \<^verbatim>\<open>static_pool\<close> is not in the source. Section 4.1 of the
  specification gives the arena a fixed capacity, \<open>allocate(size)\<close> that answers with
  storage or with none when the arena is exhausted, and \<open>capacity()\<close>. This arena counts
  the bytes in use; it stands for \<open>node_allocate\<close> and \<open>pool_get_max_size\<close> where a
  theorem below evaluates the adapter on a concrete pool.
\<close>

record arena =
  capacity :: nat
  in_use :: nat

definition arena_allocate :: "size_t \<Rightarrow> arena \<Rightarrow> ptr \<times> arena" where
  "arena_allocate sz a =
     (if in_use a + unat sz \<le> capacity a
      then (Suc (in_use a), a\<lparr>in_use := in_use a + unat sz\<rparr>)
      else (0, a))"

definition arena_get_max_size :: "arena \<Rightarrow> size_t" where
  "arena_get_max_size a = of_nat (capacity a)"

subsection \<open>One node and the Handles to it\<close>

text \<open>
  A \<^verbatim>\<open>server_node_ptr\<close> is a \<^verbatim>\<open>boost::intrusive_ptr\<close>: building one from a raw pointer
  or from another Handle calls \<^verbatim>\<open>intrusive_ptr_add_ref\<close>, and its destructor and
  \<^verbatim>\<open>reset\<close> call \<^verbatim>\<open>intrusive_ptr_release\<close>. The state of one node at the address
  \<open>this\<close> is the store together with the number of Handles that point to it.
\<close>

record system =
  mem :: heap
  handles :: nat

datatype op = SetParent ptr | ClearParent | HandleCopy | HandleDrop | Pause | Resume

definition construct :: "ptr \<Rightarrow> 32 word \<Rightarrow> bool \<Rightarrow> system" where
  "construct this nid type =
     \<lparr>mem = \<lparr>objs = [this \<mapsto> server_node_ctor nid type], freed = []\<rparr>, handles = 0\<rparr>"

definition with_mem :: "nat \<Rightarrow> error + heap \<Rightarrow> error + system" where
  "with_mem k r = (case r of Inl e \<Rightarrow> Inl e | Inr h \<Rightarrow> Inr \<lparr>mem = h, handles = k\<rparr>)"

definition call_set_parent :: "ptr \<Rightarrow> ptr \<Rightarrow> heap \<Rightarrow> error + heap" where
  "call_set_parent this p h =
     (case objs h this of
        None \<Rightarrow> Inl Dangling
      | Some n \<Rightarrow> (case set_parent p n of Inl e \<Rightarrow> Inl e | Inr n1 \<Rightarrow> Inr (store this n1 h)))"

definition call_pause :: "ptr \<Rightarrow> heap \<Rightarrow> error + heap" where
  "call_pause this h =
     (case objs h this of None \<Rightarrow> Inl Dangling | Some n \<Rightarrow> Inr (store this (pause n) h))"

definition call_resume :: "ptr \<Rightarrow> heap \<Rightarrow> error + heap" where
  "call_resume this h =
     (case objs h this of None \<Rightarrow> Inl Dangling | Some n \<Rightarrow> Inr (store this (resume n) h))"

fun step :: "ptr \<Rightarrow> op \<Rightarrow> system \<Rightarrow> error + system" where
  "step this (SetParent p) s = with_mem (handles s) (call_set_parent this p (mem s))"
| "step this ClearParent s = with_mem (handles s) (clear_parent this (mem s))"
| "step this HandleCopy s = with_mem (handles s + 1) (intrusive_ptr_add_ref this (mem s))"
| "step this HandleDrop s = with_mem (handles s - 1) (intrusive_ptr_release this (mem s))"
| "step this Pause s = with_mem (handles s) (call_pause this (mem s))"
| "step this Resume s = with_mem (handles s) (call_resume this (mem s))"

text \<open>
  What may be asked of a node. Only a Handle that exists can be dropped: that is
  \<open>handle_exists\<close>, and nothing else is required by it. \<open>within_contract\<close> asks in
  addition that \<^verbatim>\<open>clear_parent\<close> is called on a node that has a parent.
\<close>

fun handle_exists :: "ptr \<Rightarrow> op \<Rightarrow> system \<Rightarrow> bool" where
  "handle_exists this HandleDrop s = (0 < handles s)"
| "handle_exists this x s = True"

definition has_parent :: "ptr \<Rightarrow> system \<Rightarrow> bool" where
  "has_parent this s = (case objs (mem s) this of None \<Rightarrow> False | Some n \<Rightarrow> parent n \<noteq> 0)"

fun within_contract :: "ptr \<Rightarrow> op \<Rightarrow> system \<Rightarrow> bool" where
  "within_contract this ClearParent s = has_parent this s"
| "within_contract this x s = handle_exists this x s"

text \<open>
  \<open>run allowed this xs s = Some s'\<close>: every operation of \<open>xs\<close> was allowed when its turn
  came, none of them failed, and \<open>s'\<close> is the state after the last one.
\<close>

fun run :: "(ptr \<Rightarrow> op \<Rightarrow> system \<Rightarrow> bool) \<Rightarrow> ptr \<Rightarrow> op list \<Rightarrow> system \<Rightarrow> system option" where
  "run allowed this [] s = Some s"
| "run allowed this (x # xs) s =
     (if allowed this x s
      then (case step this x s of Inl e \<Rightarrow> None | Inr s1 \<Rightarrow> run allowed this xs s1)
      else None)"

text \<open>The invariant of the specification, on the node at \<open>this\<close> if it is alive.\<close>

definition parent_counted :: "ptr \<Rightarrow> system \<Rightarrow> bool" where
  "parent_counted this s =
     (case objs (mem s) this of None \<Rightarrow> True | Some n \<Rightarrow> parent n \<noteq> 0 \<longrightarrow> 1 \<le> use_count n)"

text \<open>
  The count covers every Handle and, for a node with a parent, one more: the inductive
  form of the invariant.
\<close>

definition references_counted :: "ptr \<Rightarrow> system \<Rightarrow> bool" where
  "references_counted this s =
     (case objs (mem s) this of
        None \<Rightarrow> True
      | Some n \<Rightarrow> int (handles s) + (if parent n = 0 then 0 else 1) \<le> use_count n)"

section \<open>Properties\<close>

subsection \<open>Construction, pausing, ordering\<close>

text \<open>
  Claim C10. A node that has just been constructed is running, has no parent and has the
  reference count 0.
\<close>

theorem fresh_node_running:
  "is_running (server_node_ctor nid type)
   \<and> get_parent (server_node_ctor nid type) = 0
   \<and> use_count (server_node_ctor nid type) = 0"
  by (simp add: is_running_def get_parent_def server_node_ctor_def)

text \<open>
  Claim C9. \<^verbatim>\<open>pause\<close> clears the running flag and \<^verbatim>\<open>resume\<close> sets it; calling either
  twice is the same as calling it once; the identifier, the kind, the parent and the
  reference count are those of the node before the call.
\<close>

theorem pause_resume_flag:
  "\<not> is_running (pause n) \<and> \<not> is_running (pause (pause n))
   \<and> is_running (resume n) \<and> is_running (resume (resume n))
   \<and> pause (pause n) = pause n \<and> resume (resume n) = resume n
   \<and> pause n = n\<lparr>running := False\<rparr> \<and> resume n = n\<lparr>running := True\<rparr>
   \<and> server_node_id (pause n) = server_node_id n \<and> server_node_id (resume n) = server_node_id n
   \<and> is_synth (pause n) = is_synth n \<and> is_synth (resume n) = is_synth n
   \<and> get_parent (pause n) = get_parent n \<and> get_parent (resume n) = get_parent n
   \<and> use_count (pause n) = use_count n \<and> use_count (resume n) = use_count n"
  by (simp add: is_running_def pause_def resume_def server_node_id_def is_synth_def get_parent_def)

text \<open>
  Claim C5. The two comparison operators of \<^verbatim>\<open>server_node\<close> look at the identifier
  only: \<open>a < b\<close> exactly when the identifier of \<open>a\<close> is below that of \<open>b\<close>, as unsigned
  32-bit numbers, and \<open>a == b\<close> exactly when the identifiers are equal.
\<close>

theorem node_order_by_id:
  "(node_less a b \<longleftrightarrow> server_node_id a < server_node_id b)
   \<and> (node_equal a b \<longleftrightarrow> server_node_id a = server_node_id b)
   \<and> (node_less a b \<longleftrightarrow> unat (server_node_id a) < unat (server_node_id b))
   \<and> (node_equal a b \<longleftrightarrow> unat (server_node_id a) = unat (server_node_id b))"
  by (simp add: node_less_def node_equal_def server_node_id_def word_less_nat_alt
      word_unat_eq_iff)

subsection \<open>Linking and unlinking\<close>

text \<open>
  Claim C1. On a node without a parent, \<^verbatim>\<open>set_parent(p)\<close> stores \<open>p\<close> and adds one to the
  reference count, and changes nothing else. On a node that has a parent the assertion
  fails: the call never returns a node.
\<close>

theorem set_parent_contract:
  "(parent n = 0 \<longrightarrow> set_parent p n = Inr (n\<lparr>use_count := use_count n + 1, parent := p\<rparr>))
   \<and> (parent n \<noteq> 0 \<longrightarrow> set_parent p n = Inl AssertionFailed)"
  by (simp add: set_parent_def add_ref_def)

theorem set_parent_contract_witness:
  "parent (server_node_ctor 5 True) = 0
   \<and> set_parent 7 (server_node_ctor 5 True) = Inr \<lparr>node_id = 5, synth = True, running = True, parent = 7, use_count = 1\<rparr>
   \<and> parent \<lparr>node_id = 5, synth = True, running = True, parent = 7, use_count = 1\<rparr> \<noteq> 0
   \<and> set_parent 9 \<lparr>node_id = 5, synth = True, running = True, parent = 7, use_count = 1\<rparr> = Inl AssertionFailed"
  using set_parent_contract [of "server_node_ctor 5 True" 7]
    set_parent_contract [of "\<lparr>node_id = 5, synth = True, running = True, parent = 7, use_count = 1\<rparr>" 9]
  by (simp add: server_node_ctor_def)

lemma delete_this_unparented:
  "objs h this = Some n \<Longrightarrow> parent n = 0 \<Longrightarrow>
   delete_this this h = Inr (h\<lparr>objs := (objs h)(this := None), freed := freed h @ [this]\<rparr>)"
  by (simp add: delete_this_def operator_delete_def free_storage_def)

lemma delete_this_parented:
  "objs h this = Some n \<Longrightarrow> parent n \<noteq> 0 \<Longrightarrow> delete_this this h = Inl AssertionFailed"
  by (simp add: delete_this_def)

lemma release_keeps:
  "objs h this = Some n \<Longrightarrow> use_count n \<noteq> 1 \<Longrightarrow>
   release this h = Inr (store this (n\<lparr>use_count := use_count n - 1\<rparr>) h)"
  by (simp add: release_def Let_def)

lemma release_last_unparented:
  "objs h this = Some n \<Longrightarrow> use_count n = 1 \<Longrightarrow> parent n = 0 \<Longrightarrow>
   release this h = Inr (h\<lparr>objs := (objs h)(this := None), freed := freed h @ [this]\<rparr>)"
  by (simp add: release_def Let_def store_def delete_this_def operator_delete_def
      free_storage_def)

lemma release_last_parented:
  "objs h this = Some n \<Longrightarrow> use_count n = 1 \<Longrightarrow> parent n \<noteq> 0 \<Longrightarrow>
   release this h = Inl AssertionFailed"
  by (simp add: release_def Let_def store_def delete_this_def)

text \<open>
  Claim C2. \<^verbatim>\<open>clear_parent\<close> on the live node \<open>n\<close> at \<open>this\<close>: when the count is not 1,
  the node stays, with no parent and the count one lower. When the count is 1, the
  decrement reaches zero and the node is deleted: the destructor runs on the node with
  the parent already cleared, the object is gone from the store and its address is handed
  to the arena once. The destructor of a node lets the deletion through only when the
  node has no parent.
\<close>

theorem clear_parent_effect:
  assumes "objs h this = Some n"
  shows "(use_count n \<noteq> 1 \<longrightarrow>
            clear_parent this h
              = Inr (store this (n\<lparr>parent := 0, use_count := use_count n - 1\<rparr>) h))
         \<and> (use_count n = 1 \<longrightarrow>
            clear_parent this h
              = delete_this this (store this (n\<lparr>parent := 0, use_count := 0\<rparr>) h)
            \<and> clear_parent this h
              = Inr (h\<lparr>objs := (objs h)(this := None), freed := freed h @ [this]\<rparr>))
         \<and> (\<forall>h1. delete_this this h = Inr h1 \<longrightarrow> parent n = 0)"
  using assms
  by (auto simp: clear_parent_def release_def Let_def store_def delete_this_def
      operator_delete_def free_storage_def split: if_splits)

theorem clear_parent_effect_witness:
  "objs \<lparr>objs = [1 \<mapsto> \<lparr>node_id = 5, synth = True, running = True, parent = 7, use_count = 1\<rparr>], freed = []\<rparr> 1 = Some \<lparr>node_id = 5, synth = True, running = True, parent = 7, use_count = 1\<rparr>
   \<and> clear_parent 1 \<lparr>objs = [1 \<mapsto> \<lparr>node_id = 5, synth = True, running = True, parent = 7, use_count = 1\<rparr>], freed = []\<rparr> = Inr \<lparr>objs = Map.empty, freed = [1]\<rparr>
   \<and> objs \<lparr>objs = [1 \<mapsto> \<lparr>node_id = 5, synth = True, running = True, parent = 7, use_count = 2\<rparr>], freed = []\<rparr> 1 = Some \<lparr>node_id = 5, synth = True, running = True, parent = 7, use_count = 2\<rparr>
   \<and> clear_parent 1 \<lparr>objs = [1 \<mapsto> \<lparr>node_id = 5, synth = True, running = True, parent = 7, use_count = 2\<rparr>], freed = []\<rparr>
       = Inr \<lparr>objs = [1 \<mapsto> \<lparr>node_id = 5, synth = True, running = True, parent = 0, use_count = 1\<rparr>], freed = []\<rparr>
   \<and> objs \<lparr>objs = [1 \<mapsto> \<lparr>node_id = 5, synth = True, running = True, parent = 0, use_count = 0\<rparr>], freed = []\<rparr> 1 = Some \<lparr>node_id = 5, synth = True, running = True, parent = 0, use_count = 0\<rparr>
   \<and> delete_this 1 \<lparr>objs = [1 \<mapsto> \<lparr>node_id = 5, synth = True, running = True, parent = 0, use_count = 0\<rparr>], freed = []\<rparr> = Inr \<lparr>objs = Map.empty, freed = [1]\<rparr>
   \<and> parent \<lparr>node_id = 5, synth = True, running = True, parent = 0, use_count = 0\<rparr> = 0"
  using clear_parent_effect [of "\<lparr>objs = [1 \<mapsto> \<lparr>node_id = 5, synth = True, running = True, parent = 7, use_count = 1\<rparr>], freed = []\<rparr>" 1 "\<lparr>node_id = 5, synth = True, running = True, parent = 7, use_count = 1\<rparr>"]
    clear_parent_effect [of "\<lparr>objs = [1 \<mapsto> \<lparr>node_id = 5, synth = True, running = True, parent = 7, use_count = 2\<rparr>], freed = []\<rparr>" 1 "\<lparr>node_id = 5, synth = True, running = True, parent = 7, use_count = 2\<rparr>"]
    clear_parent_effect [of "\<lparr>objs = [1 \<mapsto> \<lparr>node_id = 5, synth = True, running = True, parent = 0, use_count = 0\<rparr>], freed = []\<rparr>" 1 "\<lparr>node_id = 5, synth = True, running = True, parent = 0, use_count = 0\<rparr>"]
  by (simp add: store_def delete_this_def operator_delete_def free_storage_def)

subsection \<open>The invariant of the reference count\<close>

lemma construct_counted: "references_counted this (construct this nid type)"
  by (simp add: references_counted_def construct_def server_node_ctor_def)

lemma step_counted:
  assumes "references_counted this s" and "within_contract this x s" and "step this x s = Inr s1"
  shows "references_counted this s1"
proof (cases "objs (mem s) this")
  case None
  with assms(3) show ?thesis
    by (cases x)
      (simp_all add: with_mem_def call_set_parent_def clear_parent_def intrusive_ptr_add_ref_def
        intrusive_ptr_release_def release_def call_pause_def call_resume_def)
next
  case (Some n)
  show ?thesis
  proof (cases x)
    case (SetParent p)
    with assms Some show ?thesis
      by (auto simp: with_mem_def call_set_parent_def set_parent_def add_ref_def store_def
          references_counted_def split: if_splits)
  next
    case ClearParent
    with assms Some show ?thesis
      by (auto simp: with_mem_def clear_parent_def release_def Let_def store_def delete_this_def
          operator_delete_def free_storage_def has_parent_def references_counted_def
          split: if_splits)
  next
    case HandleCopy
    with assms Some show ?thesis
      by (auto simp: with_mem_def intrusive_ptr_add_ref_def add_ref_def store_def
          references_counted_def)
  next
    case HandleDrop
    with assms Some show ?thesis
      by (auto simp: with_mem_def intrusive_ptr_release_def release_def Let_def store_def
          delete_this_def operator_delete_def free_storage_def references_counted_def
          split: if_splits)
  next
    case Pause
    with assms Some show ?thesis
      by (auto simp: with_mem_def call_pause_def pause_def store_def references_counted_def)
  next
    case Resume
    with assms Some show ?thesis
      by (auto simp: with_mem_def call_resume_def resume_def store_def references_counted_def)
  qed
qed

lemma run_counted:
  "references_counted this s \<Longrightarrow> run within_contract this xs s = Some s1 \<Longrightarrow>
   references_counted this s1"
proof (induction xs arbitrary: s)
  case Nil
  then show ?case by simp
next
  case (Cons x xs)
  from Cons.prems(2) obtain s2 where ok: "within_contract this x s"
    and st: "step this x s = Inr s2" and rest: "run within_contract this xs s2 = Some s1"
    by (auto split: if_splits sum.splits)
  from step_counted [OF Cons.prems(1) ok st] have "references_counted this s2" .
  from Cons.IH [OF this rest] show ?case .
qed

lemma counted_parent: "references_counted this s \<Longrightarrow> parent_counted this s"
  by (auto simp: references_counted_def parent_counted_def split: option.splits if_splits)

text \<open>
  Claim C3, as the code has it. Take a node from its construction through any sequence of
  \<^verbatim>\<open>set_parent\<close>, \<^verbatim>\<open>clear_parent\<close>, Handle copy, Handle drop, \<^verbatim>\<open>pause\<close> and \<^verbatim>\<open>resume\<close>
  in which none fails, only Handles that exist are dropped, and \<^verbatim>\<open>clear_parent\<close> is
  called only while the node has a parent. In the state reached, a live node that has a
  parent has a reference count of at least 1.
\<close>

theorem parent_reference_counted:
  assumes "run within_contract this xs (construct this nid type) = Some s"
  shows "parent_counted this s"
  using run_counted [OF construct_counted assms] by (rule counted_parent)

theorem parent_reference_counted_witness:
  "run within_contract 1 [HandleCopy, SetParent 7, Pause, HandleDrop] (construct 1 5 True)
     = Some \<lparr>mem = \<lparr>objs = [1 \<mapsto> \<lparr>node_id = 5, synth = True, running = False, parent = 7, use_count = 1\<rparr>], freed = []\<rparr>, handles = 0\<rparr>
   \<and> parent_counted 1 \<lparr>mem = \<lparr>objs = [1 \<mapsto> \<lparr>node_id = 5, synth = True, running = False, parent = 7, use_count = 1\<rparr>], freed = []\<rparr>, handles = 0\<rparr>
   \<and> objs \<lparr>objs = [1 \<mapsto> \<lparr>node_id = 5, synth = True, running = False, parent = 7, use_count = 1\<rparr>], freed = []\<rparr> 1 = Some \<lparr>node_id = 5, synth = True, running = False, parent = 7, use_count = 1\<rparr>
   \<and> parent \<lparr>node_id = 5, synth = True, running = False, parent = 7, use_count = 1\<rparr> \<noteq> 0 \<and> 1 \<le> use_count \<lparr>node_id = 5, synth = True, running = False, parent = 7, use_count = 1\<rparr>"
proof -
  have r: "run within_contract 1 [HandleCopy, SetParent 7, Pause, HandleDrop] (construct 1 5 True)
     = Some \<lparr>mem = \<lparr>objs = [1 \<mapsto> \<lparr>node_id = 5, synth = True, running = False, parent = 7, use_count = 1\<rparr>], freed = []\<rparr>, handles = 0\<rparr>"
    by (simp add: construct_def server_node_ctor_def with_mem_def call_set_parent_def
        set_parent_def add_ref_def store_def intrusive_ptr_add_ref_def intrusive_ptr_release_def
        release_def Let_def call_pause_def pause_def)
  from parent_reference_counted [OF r] r show ?thesis by simp
qed

text \<open>
  The claim as it is stated fails, because \<^verbatim>\<open>clear_parent\<close> does not look at the parent
  before it lowers the count: on the new node it leaves the count at \<open>-1\<close>, and
  \<^verbatim>\<open>set_parent(7)\<close> then passes its assertion and leaves a node with a parent and the
  count 0.
\<close>

theorem clear_parent_of_new_node_counterexample:
  "run handle_exists 1 [ClearParent, SetParent 7] (construct 1 5 True)
     = Some \<lparr>mem = \<lparr>objs = [1 \<mapsto> \<lparr>node_id = 5, synth = True, running = True, parent = 7, use_count = 0\<rparr>], freed = []\<rparr>, handles = 0\<rparr>
   \<and> \<not> parent_counted 1 \<lparr>mem = \<lparr>objs = [1 \<mapsto> \<lparr>node_id = 5, synth = True, running = True, parent = 7, use_count = 0\<rparr>], freed = []\<rparr>, handles = 0\<rparr>"
  by (simp add: construct_def server_node_ctor_def with_mem_def call_set_parent_def
      set_parent_def add_ref_def store_def clear_parent_def release_def Let_def
      parent_counted_def)

subsection \<open>Handles\<close>

lemma last_handle_unparented:
  assumes "references_counted this s" and "objs (mem s) this = Some n"
    and "0 < handles s" and "use_count n = 1"
  shows "parent n = 0"
  using assms by (auto simp: references_counted_def split: if_splits)

text \<open>
  Claim C4. Take a node from its construction through any sequence of \<^verbatim>\<open>set_parent\<close>,
  \<^verbatim>\<open>clear_parent\<close>, Handle copy, Handle drop, \<^verbatim>\<open>pause\<close> and \<^verbatim>\<open>resume\<close> within the
  contract, and let \<open>n\<close> be the live node in the state reached. The call made when a
  Handle is built from the raw pointer or copied adds one to the count. The call made when
  a Handle is dropped or reset takes one off. When a Handle exists and that brings the
  count to zero, the node has no parent, the destructor's assertion holds, the node is
  deleted and its address is handed to the arena once; the object is gone afterwards, so
  no second deletion can follow.
\<close>

theorem handle_counting:
  assumes "run within_contract this xs (construct this nid type) = Some s"
    and "objs (mem s) this = Some n"
  shows "intrusive_ptr_add_ref this (mem s)
           = Inr (store this (n\<lparr>use_count := use_count n + 1\<rparr>) (mem s))
         \<and> (use_count n \<noteq> 1 \<longrightarrow>
              intrusive_ptr_release this (mem s)
                = Inr (store this (n\<lparr>use_count := use_count n - 1\<rparr>) (mem s)))
         \<and> (0 < handles s \<and> use_count n = 1 \<longrightarrow>
              parent n = 0
              \<and> intrusive_ptr_release this (mem s)
                  = Inr ((mem s)\<lparr>objs := (objs (mem s))(this := None),
                                freed := freed (mem s) @ [this]\<rparr>)
              \<and> intrusive_ptr_release this
                    ((mem s)\<lparr>objs := (objs (mem s))(this := None),
                            freed := freed (mem s) @ [this]\<rparr>)
                  = Inl Dangling)"
proof -
  have counted: "references_counted this s"
    using run_counted [OF construct_counted assms(1)] .
  have up: "intrusive_ptr_add_ref this (mem s)
              = Inr (store this (n\<lparr>use_count := use_count n + 1\<rparr>) (mem s))"
    using assms(2) by (simp add: intrusive_ptr_add_ref_def add_ref_def)
  have down: "use_count n \<noteq> 1 \<Longrightarrow>
      intrusive_ptr_release this (mem s)
        = Inr (store this (n\<lparr>use_count := use_count n - 1\<rparr>) (mem s))"
    using assms(2) by (simp add: intrusive_ptr_release_def release_keeps)
  have last: "parent n = 0
      \<and> intrusive_ptr_release this (mem s)
          = Inr ((mem s)\<lparr>objs := (objs (mem s))(this := None),
                        freed := freed (mem s) @ [this]\<rparr>)"
    if h: "0 < handles s" and c: "use_count n = 1"
  proof -
    from last_handle_unparented [OF counted assms(2) h c] have p: "parent n = 0" .
    from release_last_unparented [OF assms(2) c p] p show ?thesis
      by (simp add: intrusive_ptr_release_def)
  qed
  have gone: "intrusive_ptr_release this
                ((mem s)\<lparr>objs := (objs (mem s))(this := None),
                        freed := freed (mem s) @ [this]\<rparr>)
              = Inl Dangling"
    by (simp add: intrusive_ptr_release_def release_def)
  from up down last gone show ?thesis by blast
qed

theorem handle_counting_witness:
  "run within_contract 1 [HandleCopy] (construct 1 5 True)
     = Some \<lparr>mem = \<lparr>objs = [1 \<mapsto> \<lparr>node_id = 5, synth = True, running = True, parent = 0, use_count = 1\<rparr>], freed = []\<rparr>, handles = 1\<rparr>
   \<and> intrusive_ptr_add_ref 1 \<lparr>objs = [1 \<mapsto> \<lparr>node_id = 5, synth = True, running = True, parent = 0, use_count = 1\<rparr>], freed = []\<rparr>
       = Inr \<lparr>objs = [1 \<mapsto> \<lparr>node_id = 5, synth = True, running = True, parent = 0, use_count = 2\<rparr>], freed = []\<rparr>
   \<and> use_count \<lparr>node_id = 5, synth = True, running = True, parent = 0, use_count = 1\<rparr> = 1 \<and> parent \<lparr>node_id = 5, synth = True, running = True, parent = 0, use_count = 1\<rparr> = 0
   \<and> intrusive_ptr_release 1 \<lparr>objs = [1 \<mapsto> \<lparr>node_id = 5, synth = True, running = True, parent = 0, use_count = 1\<rparr>], freed = []\<rparr>
       = Inr \<lparr>objs = Map.empty, freed = [1]\<rparr>
   \<and> intrusive_ptr_release 1 \<lparr>objs = Map.empty, freed = [1]\<rparr> = Inl Dangling
   \<and> run within_contract 1 [HandleCopy, SetParent 7] (construct 1 5 True)
       = Some \<lparr>mem = \<lparr>objs = [1 \<mapsto> \<lparr>node_id = 5, synth = True, running = True, parent = 7, use_count = 2\<rparr>], freed = []\<rparr>, handles = 1\<rparr>
   \<and> use_count \<lparr>node_id = 5, synth = True, running = True, parent = 7, use_count = 2\<rparr> \<noteq> 1
   \<and> intrusive_ptr_release 1 \<lparr>objs = [1 \<mapsto> \<lparr>node_id = 5, synth = True, running = True, parent = 7, use_count = 2\<rparr>], freed = []\<rparr>
       = Inr \<lparr>objs = [1 \<mapsto> \<lparr>node_id = 5, synth = True, running = True, parent = 7, use_count = 1\<rparr>], freed = []\<rparr>"
proof -
  have r1: "run within_contract 1 [HandleCopy] (construct 1 5 True)
     = Some \<lparr>mem = \<lparr>objs = [1 \<mapsto> \<lparr>node_id = 5, synth = True, running = True, parent = 0, use_count = 1\<rparr>], freed = []\<rparr>, handles = 1\<rparr>"
    by (simp add: construct_def server_node_ctor_def with_mem_def store_def
        intrusive_ptr_add_ref_def add_ref_def)
  have r2: "run within_contract 1 [HandleCopy, SetParent 7] (construct 1 5 True)
     = Some \<lparr>mem = \<lparr>objs = [1 \<mapsto> \<lparr>node_id = 5, synth = True, running = True, parent = 7, use_count = 2\<rparr>], freed = []\<rparr>, handles = 1\<rparr>"
    by (simp add: construct_def server_node_ctor_def with_mem_def store_def
        intrusive_ptr_add_ref_def add_ref_def call_set_parent_def set_parent_def)
  from handle_counting [OF r1, of "\<lparr>node_id = 5, synth = True, running = True, parent = 0, use_count = 1\<rparr>"] handle_counting [OF r2, of "\<lparr>node_id = 5, synth = True, running = True, parent = 7, use_count = 2\<rparr>"] r1 r2
  show ?thesis by (simp add: store_def)
qed

subsection \<open>The allocator adapter\<close>

text \<open>
  Claim C8. \<^verbatim>\<open>allocate(n)\<close> of the adapter asks the arena once, for \<open>n * sizeof(T)\<close> bytes.
  It ends with \<^verbatim>\<open>std::bad_alloc\<close> exactly when the arena returns the null pointer, and
  otherwise returns the arena's pointer, which is not null. The pool afterwards is the
  pool after that one request.
\<close>

theorem allocate_reports_exhaustion:
  "(fst (allocator_allocate node_allocate sizeof_T n pool) = Inl BadAlloc
      \<longleftrightarrow> fst (node_allocate (n * sizeof_T) pool) = 0)
   \<and> (fst (node_allocate (n * sizeof_T) pool) \<noteq> 0 \<longrightarrow>
        fst (allocator_allocate node_allocate sizeof_T n pool)
          = Inr (fst (node_allocate (n * sizeof_T) pool)))
   \<and> fst (allocator_allocate node_allocate sizeof_T n pool) \<noteq> Inr 0
   \<and> snd (allocator_allocate node_allocate sizeof_T n pool)
        = snd (node_allocate (n * sizeof_T) pool)"
  by (simp add: allocator_allocate_def split: prod.splits)

theorem allocate_reports_exhaustion_witness:
  "fst (arena_allocate (2 * 4) \<lparr>capacity = 16, in_use = 4\<rparr>) \<noteq> 0
   \<and> allocator_allocate arena_allocate 4 2 \<lparr>capacity = 16, in_use = 4\<rparr>
        = (Inr 5, \<lparr>capacity = 16, in_use = 12\<rparr>)
   \<and> fst (arena_allocate (4 * 4) \<lparr>capacity = 16, in_use = 4\<rparr>) = 0
   \<and> allocator_allocate arena_allocate 4 4 \<lparr>capacity = 16, in_use = 4\<rparr>
        = (Inl BadAlloc, \<lparr>capacity = 16, in_use = 4\<rparr>)"
  using allocate_reports_exhaustion [of arena_allocate 4 2 "\<lparr>capacity = 16, in_use = 4\<rparr>"]
    allocate_reports_exhaustion [of arena_allocate 4 4 "\<lparr>capacity = 16, in_use = 4\<rparr>"]
  by (simp add: arena_allocate_def allocator_allocate_def)

text \<open>
  Claim C6 asks for the capacity divided by the element size. \<^verbatim>\<open>max_size()\<close> returns what
  \<^verbatim>\<open>server_node::get_max_size()\<close> returns, whatever the element size is: for elements of
  4 bytes and an arena of 8388608 bytes it is 8388608, where the claim has 2097152.
\<close>

theorem max_size_ignores_element_size:
  "allocator_max_size pool_get_max_size sizeof_T pool = get_max_size pool_get_max_size pool
   \<and> allocator_max_size arena_get_max_size 4 \<lparr>capacity = 8388608, in_use = 0\<rparr> = 8388608
   \<and> (8388608 :: size_t) div 4 = 2097152
   \<and> allocator_max_size arena_get_max_size 4 \<lparr>capacity = 8388608, in_use = 0\<rparr>
        \<noteq> arena_get_max_size \<lparr>capacity = 8388608, in_use = 0\<rparr> div 4"
  by (simp add: allocator_max_size_def get_max_size_def arena_get_max_size_def)

text \<open>
  Claim C7. \<^verbatim>\<open>operator!=\<close> on two adapters is true and \<^verbatim>\<open>operator==\<close> is false, for any
  two element types and also for an adapter compared with itself.
\<close>

theorem allocator_never_equal:
  "allocator_not_equal left right \<and> \<not> allocator_equal left right \<and> \<not> allocator_equal a a"
  by (simp add: allocator_not_equal_def allocator_equal_def)

end
